theory Spec2Isabelle
  imports Complex_Main
begin

section \<open>JavaScript numbers\<close>

text \<open>
  A JavaScript number is an IEEE 754 double. A finite value is modelled by the rational
  it denotes, with \<open>Fin 0\<close> for \<open>+0\<close> and \<open>NegZero\<close> for \<open>-0\<close>; the other
  values are the two infinities and \<open>NaN\<close>. An operation computes the exact
  rational result and rounds it to the nearest double, ties to even, as the language
  prescribes. \<open>undefined\<close> converts to \<open>NaN\<close> under arithmetic. A statement
  about \<open>Fin r\<close> for every rational \<open>r\<close> holds in particular for every double.
\<close>

datatype jsnum = Fin rat | NegZero | PosInf | NegInf | NaN

text \<open>A zero and an infinity of the given sign.\<close>

definition js_zero :: "bool \<Rightarrow> jsnum" where
  "js_zero negative = (if negative then NegZero else Fin 0)"

definition js_inf :: "bool \<Rightarrow> jsnum" where
  "js_inf positive = (if positive then PosInf else NegInf)"

text \<open>The value of a finite number, and the sign bit.\<close>

fun fin_of :: "jsnum \<Rightarrow> rat option" where
  "fin_of (Fin a) = Some a"
| "fin_of NegZero = Some 0"
| "fin_of x = None"

fun is_neg :: "jsnum \<Rightarrow> bool" where
  "is_neg (Fin a) = (a < 0)"
| "is_neg NegZero = True"
| "is_neg NegInf = True"
| "is_neg x = False"

subsection \<open>Rounding to the nearest double\<close>

text \<open>
  \<open>ilog2 n\<close> is the position of the leading bit of a positive integer, and
  \<open>floor_log2 a\<close> the exponent \<open>e\<close> with \<open>2^e \<le> a < 2^(e+1)\<close> of a positive rational.
\<close>

function ilog2 :: "int \<Rightarrow> int" where
  "ilog2 n = (if n < 2 then 0 else 1 + ilog2 (n div 2))"
  by pat_completeness auto
termination
  by (relation "measure nat") auto

declare ilog2.simps [simp del]

definition pow2 :: "int \<Rightarrow> rat" where
  "pow2 k = (if 0 \<le> k then 2 ^ nat k else 1 / 2 ^ nat (- k))"

definition floor_log2 :: "rat \<Rightarrow> int" where
  "floor_log2 a =
     (if 1 \<le> a then ilog2 \<lfloor>a\<rfloor>
      else - (1 + ilog2 (\<lceil>1 / a\<rceil> - 1)))"

text \<open>Rounding a non-negative rational to an integer, a tie going to the even one.\<close>

definition round_half_even :: "rat \<Rightarrow> int" where
  "round_half_even x =
     (let f = \<lfloor>x\<rfloor>; r = x - of_int f in
      if r < 1 / 2 then f
      else if 1 / 2 < r then f + 1
      else if even f then f else f + 1)"

text \<open>
  A double has 53 significant bits and exponents from -1022 to 1023. With \<open>e\<close> the
  exponent of the magnitude (not below -1022, where the subnormal numbers share one
  spacing), the doubles near it are the multiples of \<open>2^(e-52)\<close>. A magnitude that
  rounds to \<open>2^1024\<close> or beyond gives an infinity, one that rounds to 0 gives the
  zero of the sign of the exact result.
\<close>

definition round_double :: "rat \<Rightarrow> jsnum" where
  "round_double x =
     (if x = 0 then Fin 0
      else
        let a = \<bar>x\<bar>;
            e = max (floor_log2 a) (- 1022);
            q = pow2 (e - 52);
            n = round_half_even (a / q);
            m = of_int n * q
        in if n = 0 then js_zero (x < 0)
           else if 1023 < e \<or> (e = 1023 \<and> n = 2 ^ 53) then js_inf (0 < x)
           else Fin (if x < 0 then - m else m))"

subsection \<open>The operators the component uses\<close>

text \<open>
  Unary minus flips the sign bit. For \<open>x - y\<close>, \<open>x * y\<close> and \<open>x / y\<close> the special
  cases come first: \<open>NaN\<close> operands, zero results (whose sign follows the operands),
  division by a zero and operations on infinities.
\<close>

fun js_neg :: "jsnum \<Rightarrow> jsnum" where
  "js_neg (Fin a) = (if a = 0 then NegZero else Fin (- a))"
| "js_neg NegZero = Fin 0"
| "js_neg PosInf = NegInf"
| "js_neg NegInf = PosInf"
| "js_neg NaN = NaN"

definition js_sub :: "jsnum \<Rightarrow> jsnum \<Rightarrow> jsnum" where
  "js_sub x y =
     (if x = NaN \<or> y = NaN then NaN
      else case (fin_of x, fin_of y) of
        (Some a, Some b) \<Rightarrow>
          if a - b = 0 then js_zero (x = NegZero \<and> y \<noteq> NegZero) else round_double (a - b)
      | (Some a, None) \<Rightarrow> js_neg y
      | (None, Some b) \<Rightarrow> x
      | (None, None) \<Rightarrow> if x = y then NaN else x)"

definition js_mul :: "jsnum \<Rightarrow> jsnum \<Rightarrow> jsnum" where
  "js_mul x y =
     (if x = NaN \<or> y = NaN then NaN
      else case (fin_of x, fin_of y) of
        (Some a, Some b) \<Rightarrow>
          if a * b = 0 then js_zero (is_neg x \<noteq> is_neg y) else round_double (a * b)
      | (Some a, None) \<Rightarrow> if a = 0 then NaN else js_inf (is_neg x = is_neg y)
      | (None, Some b) \<Rightarrow> if b = 0 then NaN else js_inf (is_neg x = is_neg y)
      | (None, None) \<Rightarrow> js_inf (is_neg x = is_neg y))"

definition js_div :: "jsnum \<Rightarrow> jsnum \<Rightarrow> jsnum" where
  "js_div x y =
     (if x = NaN \<or> y = NaN then NaN
      else case (fin_of x, fin_of y) of
        (Some a, Some b) \<Rightarrow>
          if b = 0 then (if a = 0 then NaN else js_inf (is_neg x = is_neg y))
          else if a = 0 then js_zero (is_neg x \<noteq> is_neg y)
          else round_double (a / b)
      | (Some a, None) \<Rightarrow> js_zero (is_neg x \<noteq> is_neg y)
      | (None, Some b) \<Rightarrow> js_inf (is_neg x = is_neg y)
      | (None, None) \<Rightarrow> NaN)"

text \<open>
  The relational operator \<open>x > y\<close>: false as soon as an operand is \<open>NaN\<close>; the two
  zeros compare equal.
\<close>

fun js_gt :: "jsnum \<Rightarrow> jsnum \<Rightarrow> bool" where
  "js_gt NaN y = False"
| "js_gt x NaN = False"
| "js_gt PosInf PosInf = False"
| "js_gt PosInf y = True"
| "js_gt x PosInf = False"
| "js_gt NegInf y = False"
| "js_gt x NegInf = True"
| "js_gt (Fin a) (Fin b) = (b < a)"
| "js_gt (Fin a) NegZero = (0 < a)"
| "js_gt NegZero (Fin b) = (b < 0)"
| "js_gt NegZero NegZero = False"

text \<open>
  \<open>Math.max(x, y)\<close>: \<open>NaN\<close> as soon as an argument is \<open>NaN\<close>; \<open>+0\<close> is larger than
  \<open>-0\<close>.
\<close>

fun js_max :: "jsnum \<Rightarrow> jsnum \<Rightarrow> jsnum" where
  "js_max NaN y = NaN"
| "js_max x NaN = NaN"
| "js_max PosInf y = PosInf"
| "js_max x PosInf = PosInf"
| "js_max NegInf y = y"
| "js_max x NegInf = x"
| "js_max (Fin a) (Fin b) = Fin (max a b)"
| "js_max (Fin a) NegZero = (if a < 0 then NegZero else Fin a)"
| "js_max NegZero (Fin b) = (if b < 0 then NegZero else Fin b)"
| "js_max NegZero NegZero = NegZero"

section \<open>Other values\<close>

text \<open>
  The field \<open>this.distance\<close> holds \<open>null\<close> (after \<open>invalidateMetrics\<close>), a number, or
  the \<open>Error\<close> object that \<open>calculateDistance\<close> returns from its \<open>catch\<close> block.
  \<open>to_number\<close> is the conversion the arithmetic and relational operators apply.
\<close>

datatype jsval = Null | Num jsnum | ErrorObj

fun to_number :: "jsval \<Rightarrow> jsnum" where
  "to_number Null = Fin 0"
| "to_number (Num n) = n"
| "to_number ErrorObj = NaN"

section \<open>Props\<close>

text \<open>
  The props a parent passes: every option may be omitted (\<open>None\<close> is \<open>undefined\<close>);
  \<open>children\<close> is required. The presentational \<open>style\<close> prop is left out. The callback
  \<open>onMarqueeComplete\<close> acts on the state \<open>'u\<close> of the surrounding application.
\<close>

record 'u given_props =
  given_speed :: "jsnum option"
  given_loop :: "bool option"
  given_marqueeOnStart :: "bool option"
  given_marqueeDelay :: "jsnum option"
  given_marqueeResetDelay :: "jsnum option"
  given_onMarqueeComplete :: "('u \<Rightarrow> 'u) option"
  given_useNativeDriver :: "bool option"
  given_children :: string

record 'u props =
  speed :: jsnum
  loop :: bool
  marqueeOnStart :: bool
  marqueeDelay :: jsnum
  marqueeResetDelay :: jsnum
  onMarqueeComplete :: "'u \<Rightarrow> 'u"
  useNativeDriver :: bool
  children :: string

text \<open>\<open>MarqueeText.defaultProps\<close>, with the text the parent passed.\<close>

definition defaultProps :: "string \<Rightarrow> 'u props" where
  "defaultProps text =
     \<lparr>speed = Fin 100, loop = False, marqueeOnStart = False, marqueeDelay = Fin 0,
      marqueeResetDelay = Fin 0, onMarqueeComplete = (\<lambda>u. u), useNativeDriver = True,
      children = text\<rparr>"

text \<open>
  React fills every prop that is \<open>undefined\<close> with its entry of \<open>defaultProps\<close> before
  the component sees it.
\<close>

definition or_default :: "'a option \<Rightarrow> 'a \<Rightarrow> 'a" where
  "or_default given dflt = (case given of None \<Rightarrow> dflt | Some v \<Rightarrow> v)"

definition resolve_props :: "'u given_props \<Rightarrow> 'u props" where
  "resolve_props g =
     (let d = defaultProps (given_children g) in
      \<lparr>speed = or_default (given_speed g) (speed d),
       loop = or_default (given_loop g) (loop d),
       marqueeOnStart = or_default (given_marqueeOnStart g) (marqueeOnStart d),
       marqueeDelay = or_default (given_marqueeDelay g) (marqueeDelay d),
       marqueeResetDelay = or_default (given_marqueeResetDelay g) (marqueeResetDelay d),
       onMarqueeComplete = or_default (given_onMarqueeComplete g) (onMarqueeComplete d),
       useNativeDriver = or_default (given_useNativeDriver g) (useNativeDriver d),
       children = given_children g\<rparr>)"

section \<open>The component and its host\<close>

text \<open>
  What \<open>start\<close> captures from \<open>this.props\<close> when it builds the timer callback.
\<close>

record 'u captured =
  cap_speed :: jsnum
  cap_loop :: bool
  cap_onMarqueeComplete :: "'u \<Rightarrow> 'u"
  cap_useNativeDriver :: bool

text \<open>
  A running \<open>Animated.timing\<close>: its configuration and what its completion callback
  captured.
\<close>

record 'u animation =
  toValue :: jsnum
  duration :: jsnum
  anim_useNativeDriver :: bool
  anim_loop :: bool
  anim_onMarqueeComplete :: "'u \<Rightarrow> 'u"

text \<open>
  The instance fields (\<open>props\<close>, \<open>state.animating\<close>, \<open>distance\<close>, \<open>contentFits\<close>,
  \<open>animatedValue\<close>, \<open>timer\<close>) together with the part of the host the component acts on:
  the host's pending timeouts created by this instance (handle, delay, callback), the
  host's next timer handle, the animation running on \<open>animatedValue\<close>, the number of
  \<open>calculateMetrics\<close> calls suspended at their \<open>await\<close>, the number of \<open>console.warn\<close>
  calls, and the application state \<open>onMarqueeComplete\<close> acts on.
\<close>

record 'u marquee =
  props :: "'u props"
  animating :: bool
  distance :: jsval
  contentFits :: bool
  animatedValue :: jsnum
  timer :: "nat option"
  host_timers :: "(nat \<times> jsnum \<times> 'u captured) list"
  next_timer_id :: nat
  animation :: "'u animation option"
  in_flight :: nat
  warnings :: nat
  app :: 'u

text \<open>
  What the two concurrent \<open>UIManager.measure\<close> requests of one \<open>calculateDistance\<close>
  call deliver: both widths (container, text), or a failure of \<open>Promise.all\<close>.
\<close>

datatype measure_result = Widths jsnum jsnum | MeasureFailed

datatype 'a settled = Resolved 'a | Rejected

section \<open>Metrics\<close>

definition invalidateMetrics :: "'u marquee \<Rightarrow> 'u marquee" where
  "invalidateMetrics w = w\<lparr>distance := Null, contentFits := False\<rparr>"

definition shouldAnimate :: "jsval \<Rightarrow> bool" where
  "shouldAnimate d = js_gt (to_number d) (Fin 0)"

text \<open>
  \<open>calculateDistance\<close>, from the point where \<open>Promise.all\<close> settles: the \<open>try\<close> branch
  returns \<open>containerWidth - textWidth\<close>, the \<open>catch\<close> branch returns (does not throw)
  a new \<open>Error\<close>. Either way the promise of the async function is resolved.
\<close>

definition calculateDistance :: "measure_result \<Rightarrow> jsval settled" where
  "calculateDistance r =
     (case r of
        Widths containerWidth textWidth \<Rightarrow> Resolved (Num (js_sub containerWidth textWidth))
      | MeasureFailed \<Rightarrow> Resolved ErrorObj)"

text \<open>
  \<open>calculateMetrics\<close> is an async function. A call runs synchronously up to
  \<open>await this.calculateDistance()\<close>, which has issued the two measure requests and
  is itself suspended at \<open>await Promise.all\<close>; the call then returns a pending promise
  to its caller. The rest of the body runs in a later turn of the event loop, once the
  measurements have been delivered.
\<close>

definition calculateMetrics_call :: "'u marquee \<Rightarrow> 'u marquee" where
  "calculateMetrics_call w = w\<lparr>in_flight := Suc (in_flight w)\<rparr>"

definition calculateMetrics_resume :: "measure_result \<Rightarrow> 'u marquee \<Rightarrow> 'u marquee" where
  "calculateMetrics_resume r w =
     (case calculateDistance r of
        Resolved v \<Rightarrow> w\<lparr>distance := v, contentFits := \<not> shouldAnimate v\<rparr>
      | Rejected \<Rightarrow> w\<lparr>warnings := Suc (warnings w)\<rparr>)"

section \<open>Timer\<close>

text \<open>The host's \<open>clearTimeout\<close>: unknown and expired handles are ignored.\<close>

definition host_clearTimeout ::
  "nat \<Rightarrow> (nat \<times> jsnum \<times> 'u captured) list \<Rightarrow> (nat \<times> jsnum \<times> 'u captured) list" where
  "host_clearTimeout h ts = filter (\<lambda>t. fst t \<noteq> h) ts"

text \<open>
  The method \<open>clearTimeout\<close>: the guard \<open>if (this.timer)\<close> is a truthiness test, so
  \<open>null\<close>, \<open>undefined\<close> and the handle \<open>0\<close> skip the body.
\<close>

definition clearTimeout_m :: "'u marquee \<Rightarrow> 'u marquee" where
  "clearTimeout_m w =
     (case timer w of
        None \<Rightarrow> w
      | Some h \<Rightarrow>
          if h = 0 then w
          else w\<lparr>host_timers := host_clearTimeout h (host_timers w), timer := None\<rparr>)"

text \<open>
  The method \<open>setTimeout\<close>: clear, then store the handle the host returns for the new
  timeout. The parameter \<open>time\<close> has the default 0, used when the caller passes
  nothing (\<open>None\<close>).
\<close>

definition setTimeout_m :: "'u captured \<Rightarrow> jsnum option \<Rightarrow> 'u marquee \<Rightarrow> 'u marquee" where
  "setTimeout_m fn time w =
     (let w1 = clearTimeout_m w; h = next_timer_id w1 in
      w1\<lparr>host_timers := host_timers w1 @ [(h, or_default time (Fin 0), fn)],
         next_timer_id := Suc h,
         timer := Some h\<rparr>)"

section \<open>Animation control\<close>

text \<open>
  \<open>Animated.Value.setValue\<close> stops the animation running on the value; the stopped
  animation's callback is called with \<open>finished = false\<close>, for which the component's
  callback does nothing.
\<close>

definition setValue :: "jsnum \<Rightarrow> 'u marquee \<Rightarrow> 'u marquee" where
  "setValue v w = w\<lparr>animatedValue := v, animation := None\<rparr>"

definition stop :: "'u marquee \<Rightarrow> 'u marquee" where
  "stop w = (setValue (Fin 0) w)\<lparr>animating := False\<rparr>"

definition stopAnimation :: "'u marquee \<Rightarrow> 'u marquee" where
  "stopAnimation w = stop w"

definition capture :: "'u props \<Rightarrow> 'u captured" where
  "capture p =
     \<lparr>cap_speed = speed p, cap_loop = loop p,
      cap_onMarqueeComplete = onMarqueeComplete p,
      cap_useNativeDriver = useNativeDriver p\<rparr>"

definition start :: "jsnum \<Rightarrow> 'u marquee \<Rightarrow> 'u marquee" where
  "start timeDelay w = setTimeout_m (capture (props w)) (Some timeDelay) w"

definition startAnimation :: "jsnum \<Rightarrow> 'u marquee \<Rightarrow> 'u marquee" where
  "startAnimation timeDelay w = (if animating w then w else start timeDelay w)"

text \<open>
  \<open>resetAnimation\<close>: the delay is computed first, from the props at the time of the
  call; \<open>resetAnimation_begin\<close> is \<open>setValue(0)\<close> and the state update; the callback of
  \<open>setState\<close> then calls \<open>startAnimation\<close>.
\<close>

definition reset_delay :: "'u marquee \<Rightarrow> jsnum" where
  "reset_delay w = js_max (Fin 100) (marqueeResetDelay (props w))"

definition resetAnimation_begin :: "'u marquee \<Rightarrow> 'u marquee" where
  "resetAnimation_begin w = (setValue (Fin 0) w)\<lparr>animating := False\<rparr>"

definition resetAnimation :: "'u marquee \<Rightarrow> 'u marquee" where
  "resetAnimation w = startAnimation (reset_delay w) (resetAnimation_begin w)"

text \<open>
  The callback that \<open>start\<close> hands to the timer. \<open>this.calculateMetrics()\<close> is called
  without \<open>await\<close>, so only its synchronous part has run when \<open>this.contentFits\<close> is
  tested and \<open>this.distance\<close> is read.
\<close>

definition start_callback :: "'u captured \<Rightarrow> 'u marquee \<Rightarrow> 'u marquee" where
  "start_callback c w =
     (let w1 = calculateMetrics_call w in
      if \<not> contentFits w1 then
        let w2 = w1\<lparr>animating := True\<rparr> in
        w2\<lparr>animation := Some
             \<lparr>toValue = js_neg (to_number (distance w2)),
              duration = js_mul (js_div (to_number (distance w2)) (cap_speed c)) (Fin 1000),
              anim_useNativeDriver = cap_useNativeDriver c,
              anim_loop = cap_loop c,
              anim_onMarqueeComplete = cap_onMarqueeComplete c\<rparr>\<rparr>
      else w1)"

text \<open>The callback passed to \<open>Animated.timing(...).start\<close>.\<close>

definition animation_callback :: "bool \<Rightarrow> 'u animation \<Rightarrow> 'u marquee \<Rightarrow> 'u marquee" where
  "animation_callback finished a w =
     (if finished then
        (if anim_loop a then resetAnimation w
         else (let w1 = stop w in w1\<lparr>app := anim_onMarqueeComplete a (app w1)\<rparr>))
      else w)"

section \<open>Lifecycle\<close>

definition constructor :: "'u props \<Rightarrow> 'u \<Rightarrow> 'u marquee" where
  "constructor p u =
     invalidateMetrics
       \<lparr>props = p, animating = False, distance = Null, contentFits = False,
        animatedValue = Fin 0, timer = None, host_timers = [], next_timer_id = 1,
        animation = None, in_flight = 0, warnings = 0, app = u\<rparr>"

definition componentDidMount :: "'u marquee \<Rightarrow> 'u marquee" where
  "componentDidMount w =
     (if marqueeOnStart (props w) then startAnimation (marqueeDelay (props w)) w else w)"

text \<open>
  \<open>componentWillReceiveProps\<close> runs while \<open>this.props\<close> are still the old props; React
  installs the new props before it runs the callback of \<open>setState\<close>.
\<close>

definition componentWillReceiveProps :: "'u props \<Rightarrow> 'u marquee \<Rightarrow> 'u marquee" where
  "componentWillReceiveProps nextProps w =
     (if children (props w) \<noteq> children nextProps then
        (let w1 = invalidateMetrics w in
         startAnimation (reset_delay w1) ((resetAnimation_begin w1)\<lparr>props := nextProps\<rparr>))
      else w\<lparr>props := nextProps\<rparr>)"

text \<open>
  \<open>componentWillUnmount\<close> calls \<open>stopAnimation\<close> when the state is animating. React
  discards a state update requested while the component is being unmounted, so of
  \<open>stop\<close> only \<open>setValue(0)\<close> takes effect and \<open>state.animating\<close> keeps its value.
  Calls that reach the instance after the unmount are modelled as calls on a mounted
  instance.
\<close>

definition componentWillUnmount :: "'u marquee \<Rightarrow> 'u marquee" where
  "componentWillUnmount w = clearTimeout_m (if animating w then setValue (Fin 0) w else w)"

section \<open>Events\<close>

text \<open>
  Everything that can happen to an instance: lifecycle calls by React, calls of its
  methods, the content-size notification of the scroll view, and the host delivering a
  timeout, a measurement or the natural end of the running animation. Another part of
  the application taking a timer handle from the host is \<open>HostTimerElsewhere\<close>.
\<close>

datatype 'u event =
    Mount
  | ReceiveProps "'u props"
  | Unmount
  | CallStartAnimation jsnum
  | CallStopAnimation
  | CallResetAnimation
  | CallStart jsnum
  | CallStop
  | CallSetTimeout "'u captured" "jsnum option"
  | CallClearTimeout
  | ContentSizeChange
  | TimerFires
  | MeasureCompletes measure_result
  | AnimationEnds
  | HostTimerElsewhere

fun step :: "'u event \<Rightarrow> 'u marquee \<Rightarrow> 'u marquee" where
  "step Mount w = componentDidMount w"
| "step (ReceiveProps nextProps) w = componentWillReceiveProps nextProps w"
| "step Unmount w = componentWillUnmount w"
| "step (CallStartAnimation timeDelay) w = startAnimation timeDelay w"
| "step CallStopAnimation w = stopAnimation w"
| "step CallResetAnimation w = resetAnimation w"
| "step (CallStart timeDelay) w = start timeDelay w"
| "step CallStop w = stop w"
| "step (CallSetTimeout fn time) w = setTimeout_m fn time w"
| "step CallClearTimeout w = clearTimeout_m w"
| "step ContentSizeChange w = calculateMetrics_call w"
| "step TimerFires w =
     (case host_timers w of
        [] \<Rightarrow> w
      | t # ts \<Rightarrow> start_callback (snd (snd t)) (w\<lparr>host_timers := ts\<rparr>))"
| "step (MeasureCompletes r) w =
     (if in_flight w = 0 then w
      else calculateMetrics_resume r (w\<lparr>in_flight := in_flight w - 1\<rparr>))"
| "step AnimationEnds w =
     (case animation w of
        None \<Rightarrow> w
      | Some a \<Rightarrow> animation_callback True a (w\<lparr>animatedValue := toValue a, animation := None\<rparr>))"
| "step HostTimerElsewhere w = w\<lparr>next_timer_id := Suc (next_timer_id w)\<rparr>"

fun run :: "'u event list \<Rightarrow> 'u marquee \<Rightarrow> 'u marquee" where
  "run [] w = w"
| "run (e # es) w = run es (step e w)"

text \<open>
  The timer invariant: the host holds at most one pending timeout of this instance, and
  a pending timeout is the one \<open>this.timer\<close> names. The host never hands out the
  handle \<open>0\<close>.
\<close>

definition timers_ok :: "'u marquee \<Rightarrow> bool" where
  "timers_ok w =
     (0 < next_timer_id w \<and> length (host_timers w) \<le> 1 \<and>
      list_all (\<lambda>t. timer w = Some (fst t) \<and> 0 < fst t) (host_timers w))"

section \<open>The timer invariant\<close>

text \<open>
  The invariant holds after construction and every event preserves it. The lemmas below
  follow the call structure of the component: the two timer methods first, then the
  methods built on them, then the events.
\<close>

lemma timers_ok_constructor: "timers_ok (constructor p u)"
  by (simp add: timers_ok_def constructor_def invalidateMetrics_def)

lemma clearTimeout_clears: "timers_ok w \<Longrightarrow> host_timers (clearTimeout_m w) = []"
  by (cases "host_timers w")
     (auto simp: timers_ok_def clearTimeout_m_def host_clearTimeout_def split: option.splits)

lemma clearTimeout_ok: "timers_ok w \<Longrightarrow> timers_ok (clearTimeout_m w)"
  by (cases "host_timers w")
     (auto simp: timers_ok_def clearTimeout_m_def host_clearTimeout_def split: option.splits)

lemma clearTimeout_next: "next_timer_id (clearTimeout_m w) = next_timer_id w"
  by (simp add: clearTimeout_m_def split: option.splits)

lemma setTimeout_single:
  "timers_ok w \<Longrightarrow>
   host_timers (setTimeout_m fn time w) = [(next_timer_id w, or_default time (Fin 0), fn)]"
  by (simp add: setTimeout_m_def Let_def clearTimeout_clears clearTimeout_next)

lemma setTimeout_ok: "timers_ok w \<Longrightarrow> timers_ok (setTimeout_m fn time w)"
  unfolding timers_ok_def[of "setTimeout_m fn time w"]
  using setTimeout_single[of w fn time]
  by (simp add: setTimeout_m_def Let_def clearTimeout_next timers_ok_def)

lemma timers_ok_cong:
  "host_timers w' = host_timers w \<Longrightarrow> timer w' = timer w \<Longrightarrow>
   next_timer_id w' = next_timer_id w \<Longrightarrow> timers_ok w' = timers_ok w"
  by (simp add: timers_ok_def)

lemma start_ok: "timers_ok w \<Longrightarrow> timers_ok (start d w)"
  by (simp add: start_def setTimeout_ok)

lemma startAnimation_ok: "timers_ok w \<Longrightarrow> timers_ok (startAnimation d w)"
  by (simp add: startAnimation_def start_ok)

lemma setValue_ok: "timers_ok (setValue v w) = timers_ok w"
  by (rule timers_ok_cong) (simp_all add: setValue_def)

lemma stop_ok: "timers_ok (stop w) = timers_ok w"
  by (rule timers_ok_cong) (simp_all add: stop_def setValue_def)

lemma resetAnimation_begin_ok: "timers_ok (resetAnimation_begin w) = timers_ok w"
  by (rule timers_ok_cong) (simp_all add: resetAnimation_begin_def setValue_def)

lemma resetAnimation_ok: "timers_ok w \<Longrightarrow> timers_ok (resetAnimation w)"
  by (simp add: resetAnimation_def startAnimation_ok resetAnimation_begin_ok)

lemma invalidateMetrics_ok: "timers_ok (invalidateMetrics w) = timers_ok w"
  by (rule timers_ok_cong) (simp_all add: invalidateMetrics_def)

lemma start_callback_ok: "timers_ok (start_callback c w) = timers_ok w"
  by (rule timers_ok_cong) (simp_all add: start_callback_def calculateMetrics_call_def Let_def)

lemma calculateMetrics_resume_ok: "timers_ok (calculateMetrics_resume r w) = timers_ok w"
  by (rule timers_ok_cong)
     (simp_all add: calculateMetrics_resume_def calculateDistance_def split: measure_result.splits)

lemma animation_callback_ok: "timers_ok w \<Longrightarrow> timers_ok (animation_callback f a w)"
proof -
  assume ok: "timers_ok w"
  have "timers_ok ((stop w)\<lparr>app := anim_onMarqueeComplete a (app (stop w))\<rparr>) = timers_ok (stop w)"
    by (rule timers_ok_cong) simp_all
  with ok show ?thesis
    by (simp add: animation_callback_def resetAnimation_ok stop_ok Let_def)
qed

lemma receiveProps_ok: "timers_ok w \<Longrightarrow> timers_ok (componentWillReceiveProps np w)"
proof -
  assume ok: "timers_ok w"
  have a: "timers_ok (w\<lparr>props := np\<rparr>) = timers_ok w"
    by (rule timers_ok_cong) simp_all
  have b: "timers_ok ((resetAnimation_begin (invalidateMetrics w))\<lparr>props := np\<rparr>)
             = timers_ok (resetAnimation_begin (invalidateMetrics w))"
    by (rule timers_ok_cong) simp_all
  from ok a b show ?thesis
    by (simp add: componentWillReceiveProps_def Let_def startAnimation_ok
                  resetAnimation_begin_ok invalidateMetrics_ok)
qed

lemma timer_fires_ok: "timers_ok w \<Longrightarrow> timers_ok (step TimerFires w)"
proof (cases "host_timers w")
  case Nil
  assume "timers_ok w"
  with Nil show ?thesis by simp
next
  case (Cons t ts)
  assume ok: "timers_ok w"
  with Cons have "timers_ok (w\<lparr>host_timers := ts\<rparr>)"
    by (simp add: timers_ok_def)
  with Cons show ?thesis by (simp add: start_callback_ok)
qed

lemma animation_ends_ok: "timers_ok w \<Longrightarrow> timers_ok (step AnimationEnds w)"
proof (cases "animation w")
  case None
  assume "timers_ok w"
  with None show ?thesis by simp
next
  case (Some a)
  assume ok: "timers_ok w"
  have "timers_ok (w\<lparr>animatedValue := toValue a, animation := None\<rparr>) = timers_ok w"
    by (rule timers_ok_cong) simp_all
  with ok Some show ?thesis by (simp add: animation_callback_ok)
qed

lemma step_ok: "timers_ok w \<Longrightarrow> timers_ok (step e w)"
proof (cases e)
  case Mount
  assume "timers_ok w"
  with Mount show ?thesis by (simp add: componentDidMount_def startAnimation_ok)
next
  case (ReceiveProps np)
  assume "timers_ok w"
  with ReceiveProps show ?thesis by (simp add: receiveProps_ok)
next
  case Unmount
  assume "timers_ok w"
  with Unmount show ?thesis
    by (simp add: componentWillUnmount_def clearTimeout_ok setValue_ok)
next
  case (CallStartAnimation d)
  assume "timers_ok w"
  with CallStartAnimation show ?thesis by (simp add: startAnimation_ok)
next
  case CallStopAnimation
  assume "timers_ok w"
  with CallStopAnimation show ?thesis by (simp add: stopAnimation_def stop_ok)
next
  case CallResetAnimation
  assume "timers_ok w"
  with CallResetAnimation show ?thesis by (simp add: resetAnimation_ok)
next
  case (CallStart d)
  assume "timers_ok w"
  with CallStart show ?thesis by (simp add: start_ok)
next
  case CallStop
  assume "timers_ok w"
  with CallStop show ?thesis by (simp add: stop_ok)
next
  case (CallSetTimeout fn time)
  assume "timers_ok w"
  with CallSetTimeout show ?thesis by (simp add: setTimeout_ok)
next
  case CallClearTimeout
  assume "timers_ok w"
  with CallClearTimeout show ?thesis by (simp add: clearTimeout_ok)
next
  case ContentSizeChange
  assume ok: "timers_ok w"
  have "timers_ok (calculateMetrics_call w) = timers_ok w"
    by (rule timers_ok_cong) (simp_all add: calculateMetrics_call_def)
  with ok ContentSizeChange show ?thesis by simp
next
  case TimerFires
  assume "timers_ok w"
  with TimerFires show ?thesis by (simp only: timer_fires_ok)
next
  case (MeasureCompletes r)
  assume ok: "timers_ok w"
  have "timers_ok (w\<lparr>in_flight := in_flight w - 1\<rparr>) = timers_ok w"
    by (rule timers_ok_cong) simp_all
  with ok MeasureCompletes show ?thesis by (simp add: calculateMetrics_resume_ok)
next
  case AnimationEnds
  assume "timers_ok w"
  with AnimationEnds show ?thesis by (simp only: animation_ends_ok)
next
  case HostTimerElsewhere
  assume "timers_ok w"
  with HostTimerElsewhere show ?thesis by (simp add: timers_ok_def)
qed

lemma run_ok: "timers_ok w \<Longrightarrow> timers_ok (run es w)"
  by (induction es arbitrary: w) (simp_all add: step_ok)

lemma reachable_ok: "timers_ok (run es (constructor p u))"
  by (rule run_ok) (rule timers_ok_constructor)

section \<open>Facts about the arithmetic\<close>

text \<open>
  Rounding keeps the sign: a negative exact result gives a negative number, \<open>-0\<close> or
  \<open>-Infinity\<close>.
\<close>

lemma pow2_pos: "0 < pow2 k"
  by (simp add: pow2_def)

lemma round_half_even_nonneg: "0 \<le> x \<Longrightarrow> 0 \<le> round_half_even x"
proof -
  assume "0 \<le> x"
  then have "0 \<le> \<lfloor>x\<rfloor>" by simp
  then show ?thesis by (simp add: round_half_even_def Let_def)
qed

lemma round_double_negative: "x < 0 \<Longrightarrow> is_neg (round_double x)"
proof -
  assume neg: "x < 0"
  let ?e = "max (floor_log2 \<bar>x\<bar>) (- 1022)"
  let ?q = "pow2 (?e - 52)"
  let ?n = "round_half_even (\<bar>x\<bar> / ?q)"
  have q: "0 < ?q" by (rule pow2_pos)
  then have "0 \<le> \<bar>x\<bar> / ?q" by simp
  then have n: "0 \<le> ?n" by (rule round_half_even_nonneg)
  show ?thesis
  proof (cases "?n = 0")
    case True
    with neg show ?thesis by (simp add: round_double_def Let_def js_zero_def)
  next
    case False
    with n have "0 < ?n" by simp
    with q have "0 < of_int ?n * ?q" by simp
    with neg False show ?thesis
      by (simp add: round_double_def Let_def js_inf_def)
  qed
qed

lemma js_div_finite:
  "a \<noteq> 0 \<Longrightarrow> b \<noteq> 0 \<Longrightarrow> js_div (Fin a) (Fin b) = round_double (a / b)"
  by (simp add: js_div_def)

lemma js_mul_finite:
  "a \<noteq> 0 \<Longrightarrow> b \<noteq> 0 \<Longrightarrow> js_mul (Fin a) (Fin b) = round_double (a * b)"
  by (simp add: js_mul_def)

lemma js_mul_negative: "is_neg x \<Longrightarrow> is_neg (js_mul x (Fin 1000))"
proof (cases x)
  case (Fin a)
  assume "is_neg x"
  with Fin have "a < 0" by simp
  then have "a * 1000 < 0" by simp
  then have "is_neg (round_double (a * 1000))" by (rule round_double_negative)
  with Fin \<open>a < 0\<close> show ?thesis by (simp add: js_mul_def)
qed (simp_all add: js_mul_def js_zero_def js_inf_def)

text \<open>The operations at the values that the runs below go through.\<close>

lemma double_evals:
  "js_sub (Fin 100) (Fin 250) = Fin (- 150)"
  "js_sub (Fin 250) (Fin 100) = Fin 150"
  "js_sub (Fin 301) (Fin 100) = Fin 201"
  "js_mul (js_div (Fin 150) (Fin 100)) (Fin 1000) = Fin 1500"
  "js_mul (js_div (Fin 201) (Fin 100)) (Fin 1000) = Fin (8840073487319039 / 4398046511104)"
  "js_mul (js_div (Fin 0) (Fin 100)) (Fin 1000) = Fin 0"
  "js_mul (js_div (Fin 150) (Fin 0)) (Fin 1000) = PosInf"
  "js_mul (js_div (Fin 150) NegZero) (Fin 1000) = NegInf"
  "js_mul (js_div (Fin 150) (Fin (- 50))) (Fin 1000) = Fin (- 3000)"
  "round_double (3 / 2) = Fin (3 / 2)"
  "round_double 1500 = Fin 1500"
  by code_simp+

section \<open>Facts about the methods\<close>

text \<open>The definitions to unfold when a run is evaluated on concrete events.\<close>

lemmas marquee_defs =
  constructor_def invalidateMetrics_def shouldAnimate_def calculateDistance_def
  calculateMetrics_call_def calculateMetrics_resume_def host_clearTimeout_def
  clearTimeout_m_def setTimeout_m_def setValue_def stop_def stopAnimation_def
  capture_def start_def startAnimation_def reset_delay_def resetAnimation_begin_def
  resetAnimation_def start_callback_def animation_callback_def componentDidMount_def
  componentWillReceiveProps_def componentWillUnmount_def defaultProps_def
  resolve_props_def or_default_def Let_def

text \<open>
  When the invariant holds, the timeout that \<open>start\<close> schedules is the only pending
  one, so it is the one the host delivers next.
\<close>

lemma start_then_fire:
  assumes "timers_ok w"
  shows "step TimerFires (start timeDelay w) =
         start_callback (capture (props w)) ((start timeDelay w)\<lparr>host_timers := []\<rparr>)"
  using setTimeout_single[OF assms, of "capture (props w)" "Some timeDelay"]
  by (simp add: start_def or_default_def)

lemma start_fields:
  "distance (start timeDelay w) = distance w"
  "contentFits (start timeDelay w) = contentFits w"
  "props (start timeDelay w) = props w"
  "animating (start timeDelay w) = animating w"
  by (simp_all add: start_def setTimeout_m_def clearTimeout_m_def Let_def split: option.splits)

lemma start_callback_animation:
  "\<not> contentFits w \<Longrightarrow>
   animation (start_callback c w) = Some
     \<lparr>toValue = js_neg (to_number (distance w)),
      duration = js_mul (js_div (to_number (distance w)) (cap_speed c)) (Fin 1000),
      anim_useNativeDriver = cap_useNativeDriver c,
      anim_loop = cap_loop c,
      anim_onMarqueeComplete = cap_onMarqueeComplete c\<rparr>"
  by (simp add: start_callback_def calculateMetrics_call_def Let_def)

lemma setTimeout_fields:
  "animatedValue (setTimeout_m fn time w) = animatedValue w"
  "animating (setTimeout_m fn time w) = animating w"
  "animation (setTimeout_m fn time w) = animation w"
  by (simp_all add: setTimeout_m_def clearTimeout_m_def Let_def split: option.splits)

lemma resetAnimation_begin_fields:
  "animatedValue (resetAnimation_begin w) = Fin 0"
  "\<not> animating (resetAnimation_begin w)"
  "animation (resetAnimation_begin w) = None"
  "next_timer_id (resetAnimation_begin w) = next_timer_id w"
  "props (resetAnimation_begin w) = props w"
  by (simp_all add: resetAnimation_begin_def setValue_def)

lemma resetAnimation_outcome:
  assumes ok: "timers_ok w" and delay: "marqueeResetDelay (props w) = Fin d"
  shows "animatedValue (resetAnimation w) = Fin 0 \<and> \<not> animating (resetAnimation w) \<and>
         animation (resetAnimation w) = None \<and>
         host_timers (resetAnimation w) = [(next_timer_id w, Fin (max 100 d), capture (props w))]"
proof -
  let ?b = "resetAnimation_begin w"
  have okb: "timers_ok ?b" using ok by (simp add: resetAnimation_begin_ok)
  have r: "resetAnimation w = setTimeout_m (capture (props w)) (Some (Fin (max 100 d))) ?b"
    using delay
    by (simp add: resetAnimation_def startAnimation_def start_def reset_delay_def
                  resetAnimation_begin_fields)
  show ?thesis
    unfolding r
    using setTimeout_single[OF okb, of "capture (props w)" "Some (Fin (max 100 d))"]
    by (simp add: setTimeout_fields resetAnimation_begin_fields or_default_def)
qed

section \<open>Measurement and the decision to animate\<close>

text \<open>
  C1. The claim: whenever the container is narrower than the content, the distance is
  content width minus container width (positive), the animation starts and the offset
  moves from 0 towards minus the distance; for widths 100 and 250 at speed 100 the
  distance is 150, the duration 1500 ms and the final offset -150.
  The code computes \<open>containerWidth - textWidth\<close>. Evaluated at container 100 and
  text 250: the distance is -150, \<open>shouldAnimate\<close> is false, \<open>contentFits\<close> becomes
  true, and a later \<open>startAnimation\<close> whose timer fires starts no animation.
\<close>

theorem C1_overflow_is_not_animated:
  "calculateDistance (Widths (Fin 100) (Fin 250)) = Resolved (Num (Fin (- 150))) \<and>
   (let w = run [ContentSizeChange, MeasureCompletes (Widths (Fin 100) (Fin 250)),
                 CallStartAnimation (Fin 0), TimerFires,
                 MeasureCompletes (Widths (Fin 100) (Fin 250))]
                (constructor (defaultProps ''abc'') ())
    in distance w = Num (Fin (- 150)) \<and> contentFits w \<and> \<not> animating w \<and>
       animation w = None \<and> animatedValue w = Fin 0 \<and> host_timers w = [])"
  by (simp add: marquee_defs double_evals)

text \<open>
  C2. The claim: the callback scheduled by \<open>start\<close> re-measures first and decides
  on the \<open>contentFits\<close> and the distance of that completed measurement.
  The code calls the async \<open>calculateMetrics\<close> without awaiting it. Two runs:
  on a fresh instance mounted with \<open>marqueeOnStart\<close>, the fired callback starts an
  animation to offset \<open>-0\<close> with duration 0 from the \<open>null\<close> distance while the
  measurement is still in flight, and the measurement delivered afterwards changes
  nothing about it; on an instance whose earlier measurement set \<open>contentFits\<close>, the
  callback starts nothing although the measurement it has just requested clears
  \<open>contentFits\<close> when it is delivered.
\<close>

theorem C2_decision_precedes_measurement:
  "(let w = run [Mount, TimerFires]
                (constructor ((defaultProps ''abc'')\<lparr>marqueeOnStart := True\<rparr>) ())
    in in_flight w = 1 \<and> distance w = Null \<and> animating w \<and>
       map_option toValue (animation w) = Some NegZero \<and>
       map_option duration (animation w) = Some (Fin 0) \<and>
       animation (step (MeasureCompletes (Widths (Fin 250) (Fin 100))) w) = animation w) \<and>
   (let w = run [ContentSizeChange, MeasureCompletes (Widths (Fin 100) (Fin 250)),
                 CallStartAnimation (Fin 0), TimerFires,
                 MeasureCompletes (Widths (Fin 250) (Fin 100))]
                (constructor (defaultProps ''abc'') ())
    in in_flight w = 0 \<and> distance w = Num (Fin 150) \<and> \<not> contentFits w \<and>
       \<not> animating w \<and> animation w = None \<and> host_timers w = [])"
  by (simp add: marquee_defs double_evals)

text \<open>
  C3. The claim: when a width measurement fails, the measure operation rejects, the
  caller catches and logs the failure, and no animation results.
  The code returns a new \<open>Error\<close> from the \<open>catch\<close> block of \<open>calculateDistance\<close>, so
  the promise is resolved with the error object: \<open>calculateMetrics\<close> stores the object
  in \<open>distance\<close>, sets \<open>contentFits\<close> (the object compares as \<open>NaN\<close>), and never
  reaches its own \<open>catch\<close> with \<open>console.warn\<close>.
\<close>

theorem C3_failure_resolves_with_error:
  "calculateDistance MeasureFailed = Resolved ErrorObj \<and>
   (let w = run [ContentSizeChange, MeasureCompletes MeasureFailed]
                (constructor (defaultProps ''abc'') ())
    in warnings w = 0 \<and> distance w = ErrorObj \<and> contentFits w)"
  by (simp add: marquee_defs double_evals)

text \<open>
  C4. The claim: whenever the container is at least as wide as the content,
  \<open>contentFits\<close> is true after the measurement and no animation starts.
  Evaluated at container 250 and text 100: the distance is 150, \<open>contentFits\<close> is
  false, and the next fired timer callback starts an animation to -150 lasting
  1500 ms.
\<close>

theorem C4_fitting_content_is_animated:
  "(let w = run [ContentSizeChange, MeasureCompletes (Widths (Fin 250) (Fin 100)),
                 CallStartAnimation (Fin 0), TimerFires]
                (constructor (defaultProps ''abc'') ())
    in distance w = Num (Fin 150) \<and> \<not> contentFits w \<and> animating w \<and>
       map_option toValue (animation w) = Some (Fin (- 150)) \<and>
       map_option duration (animation w) = Some (Fin 1500))"
  by (simp add: marquee_defs double_evals)

section \<open>Duration\<close>

text \<open>
  C5. For every positive distance \<open>d\<close> and positive speed \<open>s\<close>: when \<open>start\<close> is called
  on an instance that holds the distance \<open>d\<close> with \<open>contentFits\<close> false, and its timer
  fires, the duration handed to \<open>Animated.timing\<close> is \<open>d / s * 1000\<close> as the two
  operators compute it on doubles; whenever the quotient \<open>d / s\<close> and its
  thousandfold are doubles themselves, this is the exact value \<open>d / s * 1000\<close>.
\<close>

theorem C5_duration_law:
  assumes "0 < d" and "0 < s"
    and "timers_ok w" and "distance w = Num (Fin d)" and "\<not> contentFits w"
    and "speed (props w) = Fin s"
  shows "map_option duration (animation (step TimerFires (start timeDelay w)))
           = Some (js_mul (js_div (Fin d) (Fin s)) (Fin 1000)) \<and>
         (round_double (d / s) = Fin (d / s) \<and>
          round_double (d / s * 1000) = Fin (d / s * 1000) \<longrightarrow>
            js_mul (js_div (Fin d) (Fin s)) (Fin 1000) = Fin (d / s * 1000))"
proof (intro conjI impI)
  let ?w' = "(start timeDelay w)\<lparr>host_timers := []\<rparr>"
  have fits: "\<not> contentFits ?w'" and dist: "distance ?w' = Num (Fin d)"
    using assms(4,5) by (simp_all add: start_fields)
  have "animation (step TimerFires (start timeDelay w))
          = animation (start_callback (capture (props w)) ?w')"
    by (simp only: start_then_fire[OF assms(3)])
  then show "map_option duration (animation (step TimerFires (start timeDelay w)))
           = Some (js_mul (js_div (Fin d) (Fin s)) (Fin 1000))"
    using assms(6) by (simp add: start_callback_animation[OF fits] dist capture_def)
next
  assume exact: "round_double (d / s) = Fin (d / s) \<and>
                 round_double (d / s * 1000) = Fin (d / s * 1000)"
  have nz: "d \<noteq> 0" "s \<noteq> 0" "d / s \<noteq> 0" using assms(1,2) by simp_all
  have "js_div (Fin d) (Fin s) = Fin (d / s)"
    using exact nz by (simp add: js_div_finite)
  moreover have "js_mul (Fin (d / s)) (Fin 1000) = Fin (d / s * 1000)"
    using exact nz(3) by (simp add: js_mul_finite)
  ultimately show "js_mul (js_div (Fin d) (Fin s)) (Fin 1000) = Fin (d / s * 1000)"
    by simp
qed

theorem C5_duration_law_witness:
  "(0::rat) < 201 \<and> (0::rat) < 100 \<and>
   map_option duration
     (animation (step TimerFires (start (Fin 0)
        (run [ContentSizeChange, MeasureCompletes (Widths (Fin 301) (Fin 100))]
             (constructor (defaultProps ''abc'') ())))))
     = Some (Fin (8840073487319039 / 4398046511104)) \<and>
   round_double (150 / 100) = Fin (150 / 100) \<and>
   round_double (150 / 100 * 1000) = Fin (150 / 100 * 1000) \<and>
   map_option duration
     (animation (step TimerFires (start (Fin 0)
        (run [ContentSizeChange, MeasureCompletes (Widths (Fin 250) (Fin 100))]
             (constructor (defaultProps ''abc'') ())))))
     = Some (Fin 1500)"
proof -
  let ?v = "run [ContentSizeChange, MeasureCompletes (Widths (Fin 301) (Fin 100))]
                (constructor (defaultProps ''abc'') ())"
  let ?w = "run [ContentSizeChange, MeasureCompletes (Widths (Fin 250) (Fin 100))]
                (constructor (defaultProps ''abc'') ())"
  have okv: "timers_ok ?v" and okw: "timers_ok ?w" by (rule reachable_ok)+
  have dv: "distance ?v = Num (Fin 201)" and dw: "distance ?w = Num (Fin 150)"
    by (simp_all add: marquee_defs double_evals)
  have fv: "\<not> contentFits ?v" and fw: "\<not> contentFits ?w"
    by (simp_all add: marquee_defs double_evals)
  have sv: "speed (props ?v) = Fin 100" and sw: "speed (props ?w) = Fin 100"
    by (simp_all add: marquee_defs)
  have pv: "(0::rat) < 201" "(0::rat) < 100" and pw: "(0::rat) < 150" "(0::rat) < 100"
    by simp_all
  have exact: "round_double (150 / 100) = Fin (150 / 100)"
    "round_double (150 / 100 * 1000) = Fin (150 / 100 * 1000)"
    by (simp_all add: double_evals)
  have a: "map_option duration (animation (step TimerFires (start (Fin 0) ?v)))
             = Some (Fin (8840073487319039 / 4398046511104))"
    using C5_duration_law[OF pv okv dv fv sv, of "Fin 0", THEN conjunct1]
    by (simp only: double_evals)
  have "js_mul (js_div (Fin 150) (Fin 100)) (Fin 1000) = Fin (150 / 100 * 1000)"
    using C5_duration_law[OF pw okw dw fw sw, of "Fin 0", THEN conjunct2] exact
    by blast
  then have b: "map_option duration (animation (step TimerFires (start (Fin 0) ?w)))
             = Some (Fin 1500)"
    using C5_duration_law[OF pw okw dw fw sw, of "Fin 0", THEN conjunct1]
    by (simp only: double_evals)
  from pv exact a b show ?thesis by blast
qed

section \<open>Reset and restart\<close>

text \<open>
  C6. For every finite \<open>marqueeResetDelay\<close> \<open>d\<close>, zero included: \<open>resetAnimation\<close>
  leaves the offset at 0, the instance not animating with no animation running, and
  exactly one pending timeout, the start callback with delay \<open>max 100 d\<close>; and when
  an animation that captured \<open>loop = true\<close> runs to its end, the completion has the
  same outcome.
\<close>

theorem C6_reset_restarts_after_floor:
  assumes "timers_ok w" and "marqueeResetDelay (props w) = Fin d"
  shows "(animatedValue (resetAnimation w) = Fin 0 \<and> \<not> animating (resetAnimation w) \<and>
          animation (resetAnimation w) = None \<and>
          host_timers (resetAnimation w)
            = [(next_timer_id w, Fin (max 100 d), capture (props w))]) \<and>
         (\<forall>a. animation w = Some a \<and> anim_loop a \<longrightarrow>
            animatedValue (step AnimationEnds w) = Fin 0 \<and>
            \<not> animating (step AnimationEnds w) \<and>
            animation (step AnimationEnds w) = None \<and>
            host_timers (step AnimationEnds w)
              = [(next_timer_id w, Fin (max 100 d), capture (props w))])"
proof (intro conjI allI impI)
  fix a
  assume run: "animation w = Some a \<and> anim_loop a"
  let ?e = "w\<lparr>animatedValue := toValue a, animation := None\<rparr>"
  have "timers_ok ?e = timers_ok w" by (rule timers_ok_cong) simp_all
  then have ok: "timers_ok ?e" using assms(1) by simp
  have delay: "marqueeResetDelay (props ?e) = Fin d" using assms(2) by simp
  have ends: "step AnimationEnds w = resetAnimation ?e"
    using run by (simp add: animation_callback_def)
  from resetAnimation_outcome[OF ok delay]
  show "animatedValue (step AnimationEnds w) = Fin 0"
    and "\<not> animating (step AnimationEnds w)"
    and "animation (step AnimationEnds w) = None"
    and "host_timers (step AnimationEnds w)
           = [(next_timer_id w, Fin (max 100 d), capture (props w))]"
    unfolding ends by simp_all
qed (use resetAnimation_outcome[OF assms] in simp_all)

theorem C6_reset_restarts_after_floor_witness:
  "marqueeResetDelay (props
     (run [ContentSizeChange, MeasureCompletes (Widths (Fin 250) (Fin 100)),
           CallStartAnimation (Fin 0), TimerFires]
          (constructor ((defaultProps ''abc'')\<lparr>loop := True\<rparr>) ()))) = Fin 0 \<and>
   map_option anim_loop (animation
     (run [ContentSizeChange, MeasureCompletes (Widths (Fin 250) (Fin 100)),
           CallStartAnimation (Fin 0), TimerFires]
          (constructor ((defaultProps ''abc'')\<lparr>loop := True\<rparr>) ()))) = Some True \<and>
   animatedValue (step AnimationEnds
     (run [ContentSizeChange, MeasureCompletes (Widths (Fin 250) (Fin 100)),
           CallStartAnimation (Fin 0), TimerFires]
          (constructor ((defaultProps ''abc'')\<lparr>loop := True\<rparr>) ()))) = Fin 0 \<and>
   \<not> animating (step AnimationEnds
     (run [ContentSizeChange, MeasureCompletes (Widths (Fin 250) (Fin 100)),
           CallStartAnimation (Fin 0), TimerFires]
          (constructor ((defaultProps ''abc'')\<lparr>loop := True\<rparr>) ()))) \<and>
   map (fst \<circ> snd) (host_timers (step AnimationEnds
     (run [ContentSizeChange, MeasureCompletes (Widths (Fin 250) (Fin 100)),
           CallStartAnimation (Fin 0), TimerFires]
          (constructor ((defaultProps ''abc'')\<lparr>loop := True\<rparr>) ())))) = [Fin 100]"
proof -
  let ?w = "run [ContentSizeChange, MeasureCompletes (Widths (Fin 250) (Fin 100)),
                 CallStartAnimation (Fin 0), TimerFires]
                (constructor ((defaultProps ''abc'')\<lparr>loop := True\<rparr>) ())"
  have ok: "timers_ok ?w" by (rule reachable_ok)
  have d: "marqueeResetDelay (props ?w) = Fin 0" by (simp add: marquee_defs double_evals)
  have l: "map_option anim_loop (animation ?w) = Some True" by (simp add: marquee_defs double_evals)
  then obtain a where a: "animation ?w = Some a \<and> anim_loop a" by auto
  from C6_reset_restarts_after_floor[OF ok d] a
  have "animatedValue (step AnimationEnds ?w) = Fin 0 \<and>
        \<not> animating (step AnimationEnds ?w) \<and>
        host_timers (step AnimationEnds ?w)
          = [(next_timer_id ?w, Fin (max 100 0), capture (props ?w))]"
    by blast
  with d l show ?thesis by simp
qed

text \<open>
  C7. \<open>startAnimation\<close> on an instance whose state is animating returns the instance
  unchanged: no timeout is scheduled, the running animation and every field stay as
  they are.
\<close>

theorem C7_startAnimation_while_animating:
  "animating w \<Longrightarrow>
   startAnimation timeDelay w = w \<and> step (CallStartAnimation timeDelay) w = w"
  by (simp add: startAnimation_def)

theorem C7_startAnimation_while_animating_witness:
  "animating (run [CallStartAnimation (Fin 0), TimerFires] (constructor (defaultProps ''abc'') ())) \<and>
   step (CallStartAnimation (Fin 500))
        (run [CallStartAnimation (Fin 0), TimerFires] (constructor (defaultProps ''abc'') ()))
     = run [CallStartAnimation (Fin 0), TimerFires] (constructor (defaultProps ''abc'') ())"
proof -
  let ?w = "run [CallStartAnimation (Fin 0), TimerFires] (constructor (defaultProps ''abc'') ())"
  have a: "animating ?w" by (simp add: marquee_defs double_evals)
  show ?thesis
    using a C7_startAnimation_while_animating[OF a, of "Fin 500"] by blast
qed

section \<open>The single timer slot\<close>

text \<open>
  C8. In every state an instance reaches from its construction, by any sequence of
  lifecycle calls, method calls (the methods \<open>setTimeout\<close> and \<open>clearTimeout\<close>
  included) and host events: at most one timeout of the instance is pending; after
  \<open>setTimeout\<close> the new timeout is the only pending one; after \<open>clearTimeout\<close> none
  is pending; and when none is pending, \<open>clearTimeout\<close> changes nothing except that it
  may drop the stale handle in \<open>this.timer\<close>.
\<close>

theorem C8_at_most_one_pending_timer:
  assumes "w = run es (constructor p u)"
  shows "length (host_timers w) \<le> 1 \<and>
         host_timers (setTimeout_m fn time w)
           = [(next_timer_id w, or_default time (Fin 0), fn)] \<and>
         host_timers (clearTimeout_m w) = [] \<and>
         (host_timers w = [] \<longrightarrow>
            (clearTimeout_m w)\<lparr>timer := None\<rparr> = w\<lparr>timer := None\<rparr>)"
proof -
  have ok: "timers_ok w" unfolding assms by (rule reachable_ok)
  have one: "length (host_timers w) \<le> 1" using ok by (simp add: timers_ok_def)
  have noop: "(clearTimeout_m w)\<lparr>timer := None\<rparr> = w\<lparr>timer := None\<rparr>"
    if "host_timers w = []"
    using that by (simp add: clearTimeout_m_def host_clearTimeout_def split: option.splits)
  from one setTimeout_single[OF ok] clearTimeout_clears[OF ok] noop
  show ?thesis by blast
qed

theorem C8_at_most_one_pending_timer_witness:
  "host_timers (run [CallStart (Fin 0), TimerFires] (constructor (defaultProps ''abc'') ())) = [] \<and>
   timer (run [CallStart (Fin 0), TimerFires] (constructor (defaultProps ''abc'') ())) = Some 1 \<and>
   (clearTimeout_m (run [CallStart (Fin 0), TimerFires]
        (constructor (defaultProps ''abc'') ())))\<lparr>timer := None\<rparr>
     = (run [CallStart (Fin 0), TimerFires] (constructor (defaultProps ''abc'') ()))\<lparr>timer := None\<rparr> \<and>
   length (host_timers (run [CallStart (Fin 0), HostTimerElsewhere, CallStart (Fin 5)]
        (constructor (defaultProps ''abc'') ()))) = 1 \<and>
   map fst (host_timers (setTimeout_m (capture (defaultProps ''abc'')) (Some (Fin 7))
      (run [CallStart (Fin 0), HostTimerElsewhere, CallStart (Fin 5)]
        (constructor (defaultProps ''abc'') ())))) = [4]"
proof -
  let ?w = "run [CallStart (Fin 0), TimerFires] (constructor (defaultProps ''abc'') ())"
  let ?v = "run [CallStart (Fin 0), HostTimerElsewhere, CallStart (Fin 5)]
                (constructor (defaultProps ''abc'') ()::unit marquee)"
  have e: "host_timers ?w = []" by (simp add: marquee_defs double_evals)
  have t: "timer ?w = Some 1" by (simp add: marquee_defs double_evals)
  have l: "length (host_timers ?v) = 1" by (simp add: marquee_defs double_evals)
  have n: "next_timer_id ?v = 4" by (simp add: marquee_defs double_evals)
  from C8_at_most_one_pending_timer[OF refl, of "[CallStart (Fin 0), TimerFires]"
         "defaultProps ''abc''" "()"] e
  have a: "(clearTimeout_m ?w)\<lparr>timer := None\<rparr> = ?w\<lparr>timer := None\<rparr>" by blast
  from C8_at_most_one_pending_timer[OF refl,
         of "[CallStart (Fin 0), HostTimerElsewhere, CallStart (Fin 5)]"
         "defaultProps ''abc''" "()" "capture (defaultProps ''abc'')" "Some (Fin 7)"] n
  have b: "map fst (host_timers (setTimeout_m (capture (defaultProps ''abc'')) (Some (Fin 7)) ?v)) = [4]"
    by simp
  from e t a l b show ?thesis by blast
qed

section \<open>Speed\<close>

text \<open>
  C9, as the spec states it: a non-positive speed is guarded, so that the duration is
  never the result of a silent division by zero and never infinite. The code has no
  guard: with speed 0 and the distance 150 the duration handed to \<open>Animated.timing\<close>
  is \<open>+Infinity\<close>.
\<close>

theorem C9_zero_speed_infinite_duration:
  "map_option duration (animation
     (run [ContentSizeChange, MeasureCompletes (Widths (Fin 250) (Fin 100)),
           CallStartAnimation (Fin 0), TimerFires]
          (constructor ((defaultProps ''abc'')\<lparr>speed := Fin 0\<rparr>) ()))) = Some PosInf"
  by (simp add: marquee_defs double_evals)

text \<open>
  C9, amended: the speed is not guarded. For every speed and every positive distance
  \<open>d\<close>, the fired callback of \<open>start\<close> sets the state to animating and hands
  \<open>Animated.timing\<close> the duration \<open>d / speed * 1000\<close> as the two operators compute it
  on doubles. That is \<open>+Infinity\<close> for the speed \<open>+0\<close>, \<open>-Infinity\<close> for the speed
  \<open>-0\<close>, and for a negative speed a number with the sign bit set: a negative number,
  \<open>-0\<close> or \<open>-Infinity\<close>.
\<close>

theorem C9_speed_is_not_guarded:
  assumes "0 < d"
    and "timers_ok w" and "distance w = Num (Fin d)" and "\<not> contentFits w"
    and "speed (props w) = sp"
  shows "animating (step TimerFires (start timeDelay w)) \<and>
         map_option duration (animation (step TimerFires (start timeDelay w)))
           = Some (js_mul (js_div (Fin d) sp) (Fin 1000)) \<and>
         (sp = Fin 0 \<longrightarrow> js_mul (js_div (Fin d) sp) (Fin 1000) = PosInf) \<and>
         (sp = NegZero \<longrightarrow> js_mul (js_div (Fin d) sp) (Fin 1000) = NegInf) \<and>
         (\<forall>s<0. sp = Fin s \<longrightarrow> is_neg (js_mul (js_div (Fin d) sp) (Fin 1000)))"
proof (intro conjI impI allI)
  let ?w' = "(start timeDelay w)\<lparr>host_timers := []\<rparr>"
  have fits: "\<not> contentFits ?w'" and dist: "distance ?w' = Num (Fin d)"
    using assms(3,4) by (simp_all add: start_fields)
  have fire: "step TimerFires (start timeDelay w) = start_callback (capture (props w)) ?w'"
    by (rule start_then_fire[OF assms(2)])
  show "animating (step TimerFires (start timeDelay w))"
    unfolding fire using fits
    by (simp add: start_callback_def calculateMetrics_call_def Let_def)
  show "map_option duration (animation (step TimerFires (start timeDelay w)))
           = Some (js_mul (js_div (Fin d) sp) (Fin 1000))"
    unfolding fire using assms(5)
    by (simp add: start_callback_animation[OF fits] dist capture_def)
next
  assume "sp = Fin 0"
  with assms(1) show "js_mul (js_div (Fin d) sp) (Fin 1000) = PosInf"
    by (simp add: js_div_def js_mul_def js_inf_def)
next
  assume "sp = NegZero"
  with assms(1) show "js_mul (js_div (Fin d) sp) (Fin 1000) = NegInf"
    by (simp add: js_div_def js_mul_def js_inf_def)
next
  fix s :: rat
  assume s: "s < 0" and sp: "sp = Fin s"
  from assms(1) s have "d / s < 0" by (simp add: divide_pos_neg)
  then have "is_neg (round_double (d / s))" by (rule round_double_negative)
  moreover have "js_div (Fin d) (Fin s) = round_double (d / s)"
    using assms(1) s by (simp add: js_div_finite)
  ultimately have "is_neg (js_div (Fin d) (Fin s))" by simp
  then show "is_neg (js_mul (js_div (Fin d) sp) (Fin 1000))"
    unfolding sp by (rule js_mul_negative)
qed

theorem C9_speed_is_not_guarded_witness:
  "(0::rat) < 150 \<and> (- 50::rat) < 0 \<and>
   speed (props (run [ContentSizeChange, MeasureCompletes (Widths (Fin 250) (Fin 100))]
             (constructor ((defaultProps ''abc'')\<lparr>speed := Fin (- 50)\<rparr>) ()))) = Fin (- 50) \<and>
   animating (step TimerFires (start (Fin 0)
        (run [ContentSizeChange, MeasureCompletes (Widths (Fin 250) (Fin 100))]
             (constructor ((defaultProps ''abc'')\<lparr>speed := Fin (- 50)\<rparr>) ())))) \<and>
   map_option duration
     (animation (step TimerFires (start (Fin 0)
        (run [ContentSizeChange, MeasureCompletes (Widths (Fin 250) (Fin 100))]
             (constructor ((defaultProps ''abc'')\<lparr>speed := Fin (- 50)\<rparr>) ())))))
     = Some (Fin (- 3000)) \<and>
   is_neg (js_mul (js_div (Fin 150) (Fin (- 50))) (Fin 1000)) \<and>
   speed (props (run [ContentSizeChange, MeasureCompletes (Widths (Fin 250) (Fin 100))]
             (constructor ((defaultProps ''abc'')\<lparr>speed := NegZero\<rparr>) ()))) = NegZero \<and>
   map_option duration
     (animation (step TimerFires (start (Fin 0)
        (run [ContentSizeChange, MeasureCompletes (Widths (Fin 250) (Fin 100))]
             (constructor ((defaultProps ''abc'')\<lparr>speed := NegZero\<rparr>) ())))))
     = Some NegInf \<and>
   speed (props (run [ContentSizeChange, MeasureCompletes (Widths (Fin 250) (Fin 100))]
             (constructor ((defaultProps ''abc'')\<lparr>speed := Fin 0\<rparr>) ()))) = Fin 0 \<and>
   map_option duration
     (animation (step TimerFires (start (Fin 0)
        (run [ContentSizeChange, MeasureCompletes (Widths (Fin 250) (Fin 100))]
             (constructor ((defaultProps ''abc'')\<lparr>speed := Fin 0\<rparr>) ())))))
     = Some PosInf"
proof -
  let ?y = "run [ContentSizeChange, MeasureCompletes (Widths (Fin 250) (Fin 100))]
                (constructor ((defaultProps ''abc'')\<lparr>speed := Fin 0\<rparr>) ())"
  have oky: "timers_ok ?y" by (rule reachable_ok)
  have dy: "distance ?y = Num (Fin 150)" and fy: "\<not> contentFits ?y"
    by (simp_all add: marquee_defs double_evals)
  have sy: "speed (props ?y) = Fin 0" by (simp add: marquee_defs)
  let ?w = "run [ContentSizeChange, MeasureCompletes (Widths (Fin 250) (Fin 100))]
                (constructor ((defaultProps ''abc'')\<lparr>speed := Fin (- 50)\<rparr>) ())"
  let ?z = "run [ContentSizeChange, MeasureCompletes (Widths (Fin 250) (Fin 100))]
                (constructor ((defaultProps ''abc'')\<lparr>speed := NegZero\<rparr>) ())"
  have ok: "timers_ok ?w" and okz: "timers_ok ?z" by (rule reachable_ok)+
  have d: "distance ?w = Num (Fin 150)" and dz: "distance ?z = Num (Fin 150)"
    by (simp_all add: marquee_defs double_evals)
  have f: "\<not> contentFits ?w" and fz: "\<not> contentFits ?z"
    by (simp_all add: marquee_defs double_evals)
  have s: "speed (props ?w) = Fin (- 50)" and sz: "speed (props ?z) = NegZero"
    by (simp_all add: marquee_defs)
  have p: "(0::rat) < 150" and n: "(- 50::rat) < 0" by simp_all
  note at_w = C9_speed_is_not_guarded[OF p ok d f s, of "Fin 0"]
  note at_z = C9_speed_is_not_guarded[OF p okz dz fz sz, of "Fin 0"]
  note at_y = C9_speed_is_not_guarded[OF p oky dy fy sy, of "Fin 0"]
  have a: "animating (step TimerFires (start (Fin 0) ?w))"
    using at_w by blast
  have b: "map_option duration (animation (step TimerFires (start (Fin 0) ?w)))
              = Some (Fin (- 3000))"
    using at_w[THEN conjunct2, THEN conjunct1] by (simp only: double_evals)
  have c: "is_neg (js_mul (js_div (Fin 150) (Fin (- 50))) (Fin 1000))"
    using at_w n by blast
  have "js_mul (js_div (Fin 150) NegZero) (Fin 1000) = NegInf"
    using at_z by blast
  then have e: "map_option duration (animation (step TimerFires (start (Fin 0) ?z)))
              = Some NegInf"
    using at_z[THEN conjunct2, THEN conjunct1] by (simp only:)
  have "js_mul (js_div (Fin 150) (Fin 0)) (Fin 1000) = PosInf"
    using at_y by blast
  then have g: "map_option duration (animation (step TimerFires (start (Fin 0) ?y)))
              = Some PosInf"
    using at_y[THEN conjunct2, THEN conjunct1] by (simp only:)
  from p n s sz sy a b c e g show ?thesis by blast
qed

section \<open>Default props\<close>

text \<open>
  C10. For each option the parent omits, the instance sees the default (speed 100,
  loop false, marqueeOnStart false, marqueeDelay 0, marqueeResetDelay 0,
  useNativeDriver true, onMarqueeComplete the function that does nothing), and every
  run of the instance is the run of an instance that was passed that default
  explicitly.
\<close>

theorem C10_default_props:
  "(given_speed g = None \<longrightarrow>
      speed (resolve_props g) = Fin 100 \<and>
      run es (constructor (resolve_props g) u)
        = run es (constructor (resolve_props (g\<lparr>given_speed := Some (Fin 100)\<rparr>)) u)) \<and>
   (given_loop g = None \<longrightarrow>
      \<not> loop (resolve_props g) \<and>
      run es (constructor (resolve_props g) u)
        = run es (constructor (resolve_props (g\<lparr>given_loop := Some False\<rparr>)) u)) \<and>
   (given_marqueeOnStart g = None \<longrightarrow>
      \<not> marqueeOnStart (resolve_props g) \<and>
      run es (constructor (resolve_props g) u)
        = run es (constructor (resolve_props (g\<lparr>given_marqueeOnStart := Some False\<rparr>)) u)) \<and>
   (given_marqueeDelay g = None \<longrightarrow>
      marqueeDelay (resolve_props g) = Fin 0 \<and>
      run es (constructor (resolve_props g) u)
        = run es (constructor (resolve_props (g\<lparr>given_marqueeDelay := Some (Fin 0)\<rparr>)) u)) \<and>
   (given_marqueeResetDelay g = None \<longrightarrow>
      marqueeResetDelay (resolve_props g) = Fin 0 \<and>
      run es (constructor (resolve_props g) u)
        = run es (constructor (resolve_props (g\<lparr>given_marqueeResetDelay := Some (Fin 0)\<rparr>)) u)) \<and>
   (given_useNativeDriver g = None \<longrightarrow>
      useNativeDriver (resolve_props g) \<and>
      run es (constructor (resolve_props g) u)
        = run es (constructor (resolve_props (g\<lparr>given_useNativeDriver := Some True\<rparr>)) u)) \<and>
   (given_onMarqueeComplete g = None \<longrightarrow>
      onMarqueeComplete (resolve_props g) = (\<lambda>x. x) \<and>
      run es (constructor (resolve_props g) u)
        = run es (constructor (resolve_props (g\<lparr>given_onMarqueeComplete := Some (\<lambda>x. x)\<rparr>)) u))"
proof (intro conjI impI)
  assume "given_speed g = None"
  then show "speed (resolve_props g) = Fin 100"
    by (simp add: resolve_props_def or_default_def defaultProps_def Let_def)
qed (simp_all add: resolve_props_def or_default_def defaultProps_def Let_def)

theorem C10_default_props_witness:
  "resolve_props
     \<lparr>given_speed = None, given_loop = None, given_marqueeOnStart = None,
      given_marqueeDelay = None, given_marqueeResetDelay = None,
      given_onMarqueeComplete = None, given_useNativeDriver = None,
      given_children = ''abc''\<rparr>
   = \<lparr>speed = Fin 100, loop = False, marqueeOnStart = False, marqueeDelay = Fin 0,
      marqueeResetDelay = Fin 0, onMarqueeComplete = (\<lambda>x::nat. x), useNativeDriver = True,
      children = ''abc''\<rparr>"
proof -
  let ?g = "\<lparr>given_speed = None, given_loop = None, given_marqueeOnStart = None,
      given_marqueeDelay = None, given_marqueeResetDelay = None,
      given_onMarqueeComplete = None::(nat \<Rightarrow> nat) option, given_useNativeDriver = None,
      given_children = ''abc''\<rparr>"
  have c: "children (resolve_props ?g) = ''abc''"
    by (simp add: resolve_props_def Let_def)
  have "resolve_props ?g
     = \<lparr>speed = speed (resolve_props ?g), loop = loop (resolve_props ?g),
        marqueeOnStart = marqueeOnStart (resolve_props ?g),
        marqueeDelay = marqueeDelay (resolve_props ?g),
        marqueeResetDelay = marqueeResetDelay (resolve_props ?g),
        onMarqueeComplete = onMarqueeComplete (resolve_props ?g),
        useNativeDriver = useNativeDriver (resolve_props ?g),
        children = children (resolve_props ?g)\<rparr>"
    by simp
  with c C10_default_props[of ?g "[]" 0] show ?thesis
    by simp
qed

end
